theory Spec2Isabelle
  imports Main "HOL-Library.Word"
begin

section \<open>Python text and exceptions\<close>

text \<open>
  Python text is a \<^typ>\<open>string\<close>: each character is carried as the bytes of its UTF-8
  encoding, which is how the source files store it. A text may hold a lone surrogate
  (U+D800 to U+DFFF), which UTF-8 cannot encode; it is carried as the three bytes that
  the same scheme would give it, the first 0xED and the second from 0xA0 to 0xBF. No
  encodable character has these two bytes at its start.
\<close>

fun has_surrogate :: "string \<Rightarrow> bool" where
  "has_surrogate [] = False"
| "has_surrogate [c] = False"
| "has_surrogate (c # d # cs) =
     ((c = CHR 0xED \<and> 160 \<le> (of_char d :: nat) \<and> (of_char d :: nat) \<le> 191)
      \<or> has_surrogate (d # cs))"

text \<open>
  The exceptions the two modules meet: \<open>PyException\<close> is the \<open>Exception\<close> of env.py
  line 247 with its message, \<open>ValueError v\<close> is what \<open>int\<close> raises on the text \<open>v\<close>,
  \<open>UnicodeEncodeError\<close> is what encoding a text with a lone surrogate raises, and
  \<open>LibraryError\<close> is whatever else a library or a method of an object raises.
\<close>

datatype error =
    PyException string
  | ValueError string
  | UnicodeEncodeError
  | LibraryError string

section \<open>Error-response normalizer (public\_server/main.py)\<close>

subsection \<open>The response catalog\<close>

text \<open>
  Modelled from the spec: the module \<open>public_server.schemas.response_info\<close> (the classes
  \<open>RespInfo\<close>, \<open>RSINFO\<close>, \<open>RFInfo\<close> and \<open>NMCException\<close>) is imported by main.py
  and is not among the source files. A \<open>RespInfo\<close> is the record the spec calls ErrorInfo:
  an integer code, a reason slug, a message and an HTTP status.
\<close>

record RespInfo =
  code :: int
  reason :: string
  message :: string
  http_status :: int

text \<open>
  Modelled from the spec: \<open>RespInfo.with_message\<close> is missing with its module. The spec
  describes a copy-and-replace of the message that returns a new record. The call at
  main.py line 124 passes a second keyword, \<open>reason\<close>, and the spec's mapping table gives
  that call's result the reason passed in; every other call passes the message alone. So
  the reason is an optional argument that replaces the record's reason when it is given.
\<close>

definition with_message :: "RespInfo \<Rightarrow> string \<Rightarrow> string option \<Rightarrow> RespInfo" where
  "with_message e m r =
     e\<lparr>message := m, reason := (case r of None \<Rightarrow> reason e | Some r' \<Rightarrow> r')\<rparr>"



subsection \<open>Inputs and outputs of the handlers\<close>

text \<open>
  The first argument of \<open>response_for_error\<close> has type \<open>Any\<close>; the function only asks
  whether it is a \<open>RespInfo\<close> and, if not, takes \<open>str\<close> of it. A value that is not a
  \<open>RespInfo\<close> is therefore represented by what \<open>str\<close> does on it: it raises, or it
  returns a text.
\<close>

datatype py_any = IsRespInfo RespInfo | NotRespInfo "error + string"

text \<open>
  An exception, as far as line 84 reads it: the name of its class and what \<open>str\<close> does
  on it.
\<close>

record py_exception =
  exc_class_name :: string
  exc_str :: "error + string"

text \<open>
  A \<open>JSONResponse\<close>: the three keys of the body and the status code. Starlette's
  \<open>JSONResponse\<close> has status code 200 when none is passed. Its constructor writes the
  body as JSON and encodes that as UTF-8, which raises for a text with a lone surrogate.
\<close>

record JSONResponse =
  body_code :: int
  body_reason :: string
  body_message :: string
  status_code :: int

definition JSONResponse_default_status :: int where
  "JSONResponse_default_status = 200"

definition make_JSONResponse :: "int \<Rightarrow> string \<Rightarrow> string \<Rightarrow> int \<Rightarrow> error + JSONResponse" where
  "make_JSONResponse c r m st =
     (if has_surrogate r \<or> has_surrogate m then Inl UnicodeEncodeError
      else Inr \<lparr>body_code = c, body_reason = r, body_message = m, status_code = st\<rparr>)"

text \<open>
  An \<open>sqlalchemy.exc.IntegrityError\<close>, as far as the handler reads it: its \<open>code\<close>
  attribute, which SQLAlchemy types as an optional string.
\<close>

record IntegrityError =
  ie_code :: "string option"

text \<open>
  What leaves \<open>integrity_exception_handler\<close> when it returns no response: the exception
  it was called with, raised again, or an exception of the response construction.
\<close>

datatype integrity_raised = Reraised IntegrityError | Raised error

subsection \<open>response\_for\_error and the exception handlers\<close>

text \<open>
  main.py lines 66 to 99. The catalog entry \<open>RSINFO.REQUEST_VALIDATION_ERROR\<close> is the
  first parameter, since the catalog is not among the source files. The request argument
  is of any type: the branch that tests it is \<open>pass\<close>. An exception of \<open>str\<close> or of the
  response construction is the result \<open>Inl\<close>.
\<close>

definition response_for_error ::
  "RespInfo \<Rightarrow> py_any \<Rightarrow> py_exception option \<Rightarrow> 'r option \<Rightarrow> error + JSONResponse" where
  "response_for_error REQUEST_VALIDATION_ERROR error exception request =
     (case error of
        IsRespInfo e \<Rightarrow>
          (case (case exception of
                   Some ex \<Rightarrow>
                     (case exc_str ex of
                        Inl raised \<Rightarrow> Inl raised
                      | Inr t \<Rightarrow>
                          (let msg = exc_class_name ex @ '': '' @ t
                           in Inr (with_message REQUEST_VALIDATION_ERROR msg None)))
                 | None \<Rightarrow> Inr e) of
             Inl raised \<Rightarrow> Inl raised
           | Inr error1 \<Rightarrow>
               make_JSONResponse (code error1) (reason error1) (message error1)
                 (http_status error1))
      | NotRespInfo str_error \<Rightarrow>
          (case str_error of
             Inl raised \<Rightarrow> Inl raised
           | Inr s \<Rightarrow> make_JSONResponse 0 s s JSONResponse_default_status))"

text \<open>main.py lines 102 to 105.\<close>

definition validation_exception_handler ::
  "RespInfo \<Rightarrow> 'r \<Rightarrow> 'e \<Rightarrow> error + JSONResponse" where
  "validation_exception_handler REQUEST_VALIDATION_ERROR request e =
     response_for_error REQUEST_VALIDATION_ERROR (IsRespInfo REQUEST_VALIDATION_ERROR)
       None (None :: 'r option)"

text \<open>main.py lines 108 to 111; \<open>RFInfo.FAILED\<close> is a parameter like the entry above.\<close>

definition assert_exception_handler ::
  "RespInfo \<Rightarrow> RespInfo \<Rightarrow> 'r \<Rightarrow> py_exception \<Rightarrow> error + JSONResponse" where
  "assert_exception_handler REQUEST_VALIDATION_ERROR FAILED request exc =
     (case exc_str exc of
        Inl raised \<Rightarrow> Inl raised
      | Inr t \<Rightarrow>
          response_for_error REQUEST_VALIDATION_ERROR
            (IsRespInfo (with_message FAILED t None)) None (None :: 'r option))"

text \<open>
  The message literal of main.py line 124, five CJK characters (U+6570, U+636E, U+5DF2,
  U+5B58, U+5728), as the fifteen bytes the source file holds.
\<close>

definition msg_data_exists :: string where
  "msg_data_exists =
     [CHR 0xE6, CHR 0x95, CHR 0xB0, CHR 0xE6, CHR 0x8D, CHR 0xAE, CHR 0xE5, CHR 0xB7,
      CHR 0xB2, CHR 0xE5, CHR 0xAD, CHR 0x98, CHR 0xE5, CHR 0x9C, CHR 0xA8]"

text \<open>
  main.py lines 120 to 125. \<open>raise exc\<close> is the result \<open>Inl (Reraised exc)\<close>: the
  exception leaves the handler as it came in.
\<close>

definition integrity_exception_handler ::
  "RespInfo \<Rightarrow> RespInfo \<Rightarrow> 'r \<Rightarrow> IntegrityError \<Rightarrow> integrity_raised + JSONResponse" where
  "integrity_exception_handler REQUEST_VALIDATION_ERROR FAILED request exc =
     (if ie_code exc = Some ''gkpj''
      then (case response_for_error REQUEST_VALIDATION_ERROR
                   (IsRespInfo (with_message FAILED msg_data_exists (Some ''data exist'')))
                   None (None :: 'r option) of
              Inl raised \<Rightarrow> Inl (Raised raised)
            | Inr response \<Rightarrow> Inr response)
      else Inl (Reraised exc))"

text \<open>
  main.py lines 114 to 117. The \<open>error\<close> attribute of an \<open>NMCException\<close> is handed over
  as it is.
\<close>

definition http_exception_handler :: "RespInfo \<Rightarrow> 'r \<Rightarrow> py_any \<Rightarrow> error + JSONResponse" where
  "http_exception_handler REQUEST_VALIDATION_ERROR request exc_error =
     response_for_error REQUEST_VALIDATION_ERROR exc_error None (None :: 'r option)"

section \<open>Environment configuration loader (public\_server/utils/env.py)\<close>

subsection \<open>Python values, errors and the process environment\<close>

text \<open>
  The values a setting, a default or a loader result can be. A float is its 64 bits.
  \<open>PEnum n v\<close> is the member named \<open>n\<close> of an enumeration with a mixed-in data type,
  \<open>v\<close> being the member's value of that type: such a member is an instance of the
  mixed-in type. \<open>PObject t\<close> is an object of any other class, one that is not a kind
  of \<open>str\<close>; of such an object the module only ever takes the truth value, and \<open>t\<close> is
  what that does: the class's \<open>__bool__\<close> or \<open>__len__\<close> raises, or gives a truth value.
\<close>

datatype pyval =
    PNone
  | PBool bool
  | PInt int
  | PFloat "64 word"
  | PStr string
  | PList "pyval list"
  | PTuple "pyval list"
  | PDict "(pyval \<times> pyval) list"
  | PEnum string pyval
  | PObject "error + bool"

text \<open>
  \<open>os.environ\<close>: the variables in iteration order. \<open>os.getenv(name, None)\<close> finds the
  variable of that name.
\<close>

type_synonym environ = "(string \<times> string) list"

definition getenv :: "environ \<Rightarrow> string \<Rightarrow> string option" where
  "getenv env name = map_of env name"

subsection \<open>Python built-ins the module calls\<close>

text \<open>
  \<open>bool(x)\<close>, which may raise. A float is false when it is plus or minus zero.
\<close>

fun truthy :: "pyval \<Rightarrow> error + bool" where
  "truthy PNone = Inr False"
| "truthy (PBool b) = Inr b"
| "truthy (PInt i) = Inr (i \<noteq> 0)"
| "truthy (PFloat w) = Inr (take_bit 63 w \<noteq> 0)"
| "truthy (PStr s) = Inr (s \<noteq> [])"
| "truthy (PList xs) = Inr (xs \<noteq> [])"
| "truthy (PTuple xs) = Inr (xs \<noteq> [])"
| "truthy (PDict kvs) = Inr (kvs \<noteq> [])"
| "truthy (PEnum n v) = truthy v"
| "truthy (PObject t) = t"

text \<open>\<open>isinstance(x, str)\<close>, with the text of \<open>x\<close> when it holds.\<close>

fun str_of :: "pyval \<Rightarrow> string option" where
  "str_of (PStr s) = Some s"
| "str_of (PEnum n v) = str_of v"
| "str_of PNone = None"
| "str_of (PBool b) = None"
| "str_of (PInt i) = None"
| "str_of (PFloat w) = None"
| "str_of (PList xs) = None"
| "str_of (PTuple xs) = None"
| "str_of (PDict kvs) = None"
| "str_of (PObject t) = None"

definition is_str :: "pyval \<Rightarrow> bool" where
  "is_str x = (str_of x \<noteq> None)"

text \<open>\<open>s.startswith(p)\<close> and \<open>sub in s\<close> on text.\<close>

fun startswith :: "string \<Rightarrow> string \<Rightarrow> bool" where
  "startswith s [] = True"
| "startswith [] (p # ps) = False"
| "startswith (c # cs) (p # ps) = (c = p \<and> startswith cs ps)"

fun contains :: "string \<Rightarrow> string \<Rightarrow> bool" where
  "contains sub [] = (sub = [])"
| "contains sub (c # cs) = (startswith (c # cs) sub \<or> contains sub cs)"

text \<open>\<open>s.replace(old, new)\<close> for an \<open>old\<close> of one character.\<close>

definition replace_char :: "char \<Rightarrow> string \<Rightarrow> string \<Rightarrow> string" where
  "replace_char old new s = concat (map (\<lambda>c. if c = old then new else [c]) s)"

text \<open>
  \<open>s.lower()\<close> on the ASCII letters. Python also lowers letters outside ASCII; their
  bytes are left as they are here. No letter outside ASCII lowers to one of the letters of
  \<open>true\<close> and \<open>yes\<close>, so the test of line 215 comes out the same.
\<close>

definition lower_char :: "char \<Rightarrow> char" where
  "lower_char c =
     (case map_of (zip ''ABCDEFGHIJKLMNOPQRSTUVWXYZ'' ''abcdefghijklmnopqrstuvwxyz'') c of
        Some l \<Rightarrow> l
      | None \<Rightarrow> c)"

definition lower :: "string \<Rightarrow> string" where
  "lower s = map lower_char s"

text \<open>
  The characters of a text: a byte that is not a continuation byte (0x80 to 0xBF) starts
  a character, and the continuation bytes after it belong to it. \<open>len\<close> and slices
  count characters.
\<close>

definition is_cont :: "char \<Rightarrow> bool" where
  "is_cont c = (128 \<le> (of_char c :: nat) \<and> (of_char c :: nat) < 192)"

fun characters :: "string \<Rightarrow> string list" where
  "characters [] = []"
| "characters (c # cs) =
     (case characters cs of
        [] \<Rightarrow> [[c]]
      | g # gs \<Rightarrow> if is_cont (hd g) then (c # g) # gs else [c] # g # gs)"









subsection \<open>general\_loader and the typed loaders\<close>

text \<open>
  env.py lines 43 to 46: the form of the value that is kept for a log when the value
  holds a secret. The truth of the value is taken first, and that may raise.
\<close>

definition redacted :: "pyval \<Rightarrow> error + pyval" where
  "redacted log_value =
     (case truthy log_value of
        Inl raised \<Rightarrow> Inl raised
      | Inr true \<Rightarrow>
          (let cs = characters (case str_of log_value of Some s \<Rightarrow> s | None \<Rightarrow> [])
           in if true \<and> is_str log_value \<and> length cs > 10
              then Inr (PStr (concat (take 4 cs) @ ''**'' @ concat (drop (length cs - 4) cs)))
              else Inr (PStr ''**'')))"

text \<open>
  env.py lines 38 to 47. The loader may raise, which is the result \<open>Inl\<close>; nothing
  catches it, nor an exception of lines 43 to 46. \<open>log_value\<close> is computed and not
  used.
\<close>

definition general_loader ::
  "environ \<Rightarrow> string \<Rightarrow> (string \<Rightarrow> error + pyval) \<Rightarrow> pyval \<Rightarrow> string option \<Rightarrow> bool
     \<Rightarrow> error + pyval" where
  "general_loader env name loader dflt description contains_secret =
     (let value_str = getenv env name
      in case (case value_str of Some v \<Rightarrow> loader v | None \<Rightarrow> Inr dflt) of
           Inl raised \<Rightarrow> Inl raised
         | Inr val \<Rightarrow>
             (case (if contains_secret then redacted val else Inr val) of
                Inl raised \<Rightarrow> Inl raised
              | Inr log_value \<Rightarrow> Inr val))"






text \<open>env.py lines 213 to 219.\<close>

definition Env_boolean ::
  "environ \<Rightarrow> string \<Rightarrow> pyval \<Rightarrow> string option \<Rightarrow> bool \<Rightarrow> error + pyval" where
  "Env_boolean env name dflt description contains_secret =
     general_loader env name (\<lambda>v. Inr (PBool (lower v \<in> {''true'', ''1'', ''yes''})))
       dflt description contains_secret"

subsection \<open>auto\_load\<close>

text \<open>
  The target mapping, \<open>settings\<close>, is a dictionary from names to values. \<open>auto_load\<close>
  changes it in place and may raise in the middle, so the model returns the mapping as
  it stands at the end together with the exception, if one was raised.
\<close>

type_synonym settings = "string \<rightharpoonup> pyval"

definition sep :: string where
  "sep = ''__''"

text \<open>
  env.py lines 254 to 272, the loop over \<open>os.environ.items()\<close>. \<open>json.loads\<close> and
  \<open>ast.literal_eval\<close> are parameters. Every exception of \<open>json.loads\<close> is caught; one
  of \<open>ast.literal_eval\<close> ends the loop and leaves the function.
\<close>

fun auto_load_items ::
  "(string \<Rightarrow> error + pyval) \<Rightarrow> (string \<Rightarrow> error + pyval) \<Rightarrow> string \<Rightarrow> environ \<Rightarrow> settings
     \<Rightarrow> settings \<times> error option" where
  "auto_load_items json_loads literal_eval settings_prefix [] settings = (settings, None)"
| "auto_load_items json_loads literal_eval settings_prefix ((k, v) # rest) settings =
     (if \<not> startswith k settings_prefix
      then auto_load_items json_loads literal_eval settings_prefix rest settings
      else
        (let key = drop (length settings_prefix + length sep) k
         in if key = [] \<or> contains sep key
            then auto_load_items json_loads literal_eval settings_prefix rest settings
            else if (case settings key of
                       None \<Rightarrow> False
                     | Some old \<Rightarrow> old \<noteq> PNone \<and> \<not> is_str old)
            then (case json_loads v of
                    Inr x \<Rightarrow>
                      auto_load_items json_loads literal_eval settings_prefix rest
                        (settings(key \<mapsto> x))
                  | Inl e \<Rightarrow>
                      (case literal_eval v of
                         Inr x \<Rightarrow>
                           auto_load_items json_loads literal_eval settings_prefix rest
                             (settings(key \<mapsto> x))
                       | Inl e' \<Rightarrow> (settings, Some e')))
            else auto_load_items json_loads literal_eval settings_prefix rest
                   (settings(key \<mapsto> PStr v))))"

text \<open>
  env.py lines 246 to 272, with \<open>name\<close> and \<open>settings\<close> given by the caller (lines 233
  to 244 look both up in the caller's frame when they are left out; the frame is not part
  of this model).
\<close>

definition auto_load ::
  "(string \<Rightarrow> error + pyval) \<Rightarrow> (string \<Rightarrow> error + pyval) \<Rightarrow> environ \<Rightarrow> string \<Rightarrow> settings
     \<Rightarrow> settings \<times> error option" where
  "auto_load json_loads literal_eval env name settings =
     (if \<not> contains ''.'' name
      then (settings,
            Some (PyException (''Invalid settings module name '' @ name
                    @ ''. Please import it with full package name'')))
      else auto_load_items json_loads literal_eval (replace_char CHR ''.'' sep name) env
             settings)"

subsection \<open>A stand-in for the library parsers in examples\<close>

text \<open>
  The examples below need some function in the place of \<open>json.loads\<close> and
  \<open>ast.literal_eval\<close>. \<open>parse_five\<close> reads the text \<open>5\<close> as the integer 5, as both
  library parsers do, and rejects every other text.
\<close>

definition parse_five :: "string \<Rightarrow> error + pyval" where
  "parse_five s = (if s = ''5'' then Inr (PInt 5) else Inl (LibraryError s))"


section \<open>Properties of the error-response normalizer\<close>

text \<open>
  C1, as the claim words it: whatever a value that is not a \<open>RespInfo\<close> stringifies to,
  the body with that text comes back. For a text with a lone surrogate (here U+D800
  alone) the construction of the response raises instead.
\<close>

theorem response_for_error_surrogate_text_raises:
  "response_for_error
     \<lparr>code = 1, reason = ''invalid'', message = ''invalid'', http_status = 422\<rparr>
     (NotRespInfo (Inr [CHR 0xED, CHR 0xA0, CHR 0x80])) None (None :: unit option)
   = Inl UnicodeEncodeError"
  by (simp add: response_for_error_def make_JSONResponse_def)

text \<open>
  C1, amended. For a value that is not a \<open>RespInfo\<close>: when \<open>str\<close> of it is a text that
  UTF-8 can encode, \<open>response_for_error\<close> answers with the body code 0, reason and
  message both that text, and the status 200 that a \<open>JSONResponse\<close> has by default,
  whatever exception and request are passed along; when the text holds a lone surrogate,
  the construction of the response raises \<open>UnicodeEncodeError\<close>; when \<open>str\<close> raises, that
  exception leaves the function.
\<close>

theorem response_for_error_not_RespInfo:
  "(\<not> has_surrogate s \<longrightarrow>
      response_for_error rve (NotRespInfo (Inr s)) exception request =
        Inr \<lparr>body_code = 0, body_reason = s, body_message = s, status_code = 200\<rparr>)
   \<and> (has_surrogate s \<longrightarrow>
      response_for_error rve (NotRespInfo (Inr s)) exception request
        = Inl UnicodeEncodeError)
   \<and> response_for_error rve (NotRespInfo (Inl raised)) exception request = Inl raised"
  by (simp add: response_for_error_def make_JSONResponse_def JSONResponse_default_status_def)

theorem response_for_error_not_RespInfo_witness:
  "\<not> has_surrogate ''oops''
   \<and> has_surrogate [CHR ''a'', CHR 0xED, CHR 0xB0, CHR 0x80]
   \<and> response_for_error
        \<lparr>code = 1, reason = ''invalid'', message = ''invalid'', http_status = 422\<rparr>
        (NotRespInfo (Inr ''oops'')) None (None :: unit option)
      = Inr \<lparr>body_code = 0, body_reason = ''oops'', body_message = ''oops'',
             status_code = 200\<rparr>
   \<and> response_for_error
        \<lparr>code = 1, reason = ''invalid'', message = ''invalid'', http_status = 422\<rparr>
        (NotRespInfo (Inr [CHR ''a'', CHR 0xED, CHR 0xB0, CHR 0x80])) None
        (None :: unit option)
      = Inl UnicodeEncodeError"
  using
    response_for_error_not_RespInfo
      [of "''oops''"
          "\<lparr>code = 1, reason = ''invalid'', message = ''invalid'', http_status = 422\<rparr>"
          None "None :: unit option"]
    response_for_error_not_RespInfo
      [of "[CHR ''a'', CHR 0xED, CHR 0xB0, CHR 0x80]"
          "\<lparr>code = 1, reason = ''invalid'', message = ''invalid'', http_status = 422\<rparr>"
          None "None :: unit option"]
  by simp




text \<open>
  C3, as the claim words it: for every exception the body carries the formatted message.
  For an exception whose text holds a lone surrogate the construction of the response
  raises instead.
\<close>

theorem response_for_error_surrogate_exception_raises:
  "response_for_error
     \<lparr>code = 1, reason = ''invalid'', message = ''invalid'', http_status = 422\<rparr>
     (IsRespInfo \<lparr>code = 2, reason = ''failed'', message = ''failed'', http_status = 400\<rparr>)
     (Some \<lparr>exc_class_name = ''ValueError'', exc_str = Inr [CHR 0xED, CHR 0xA0, CHR 0x80]\<rparr>)
     (None :: unit option)
   = Inl UnicodeEncodeError"
  by (simp add: response_for_error_def make_JSONResponse_def with_message_def)

text \<open>
  C3, amended. For a \<open>RespInfo\<close> and an exception whose \<open>str\<close> is a text: when that text,
  the class name and the reason of the catalog's \<open>REQUEST_VALIDATION_ERROR\<close> can be
  encoded in UTF-8, \<open>response_for_error\<close> answers with the code, reason and status of
  \<open>REQUEST_VALIDATION_ERROR\<close> and with the message made of the exception's class name, a
  colon and a blank, and the text, and nothing of the \<open>RespInfo\<close> passed in is left; when
  one of them holds a lone surrogate, the construction of the response raises
  \<open>UnicodeEncodeError\<close>. When \<open>str\<close> of the exception raises, that exception leaves the
  function.
\<close>

theorem response_for_error_with_exception:
  "(exc_str ex = Inr t \<and> \<not> has_surrogate (reason rve)
      \<and> \<not> has_surrogate (exc_class_name ex @ '': '' @ t) \<longrightarrow>
      response_for_error rve (IsRespInfo e) (Some ex) request =
        Inr \<lparr>body_code = code rve, body_reason = reason rve,
             body_message = exc_class_name ex @ '': '' @ t,
             status_code = http_status rve\<rparr>)
   \<and> (exc_str ex = Inr t
      \<and> (has_surrogate (reason rve) \<or> has_surrogate (exc_class_name ex @ '': '' @ t)) \<longrightarrow>
      response_for_error rve (IsRespInfo e) (Some ex) request = Inl UnicodeEncodeError)
   \<and> (exc_str ex = Inl raised \<longrightarrow>
      response_for_error rve (IsRespInfo e) (Some ex) request = Inl raised)"
  by (simp add: response_for_error_def make_JSONResponse_def with_message_def)

theorem response_for_error_with_exception_witness:
  "exc_str \<lparr>exc_class_name = ''ValidationError'', exc_str = Inr ''boom''\<rparr> = Inr ''boom''
   \<and> \<not> has_surrogate ''invalid''
   \<and> \<not> has_surrogate (''ValidationError'' @ '': '' @ ''boom'')
   \<and> response_for_error
        \<lparr>code = 1, reason = ''invalid'', message = ''invalid'', http_status = 422\<rparr>
        (IsRespInfo \<lparr>code = 2, reason = ''failed'', message = ''failed'', http_status = 400\<rparr>)
        (Some \<lparr>exc_class_name = ''ValidationError'', exc_str = Inr ''boom''\<rparr>)
        (None :: unit option)
      = Inr \<lparr>body_code = 1, body_reason = ''invalid'',
             body_message = ''ValidationError: boom'', status_code = 422\<rparr>"
  using
    response_for_error_with_exception
      [of "\<lparr>exc_class_name = ''ValidationError'', exc_str = Inr ''boom''\<rparr>" "''boom''"
          "\<lparr>code = 1, reason = ''invalid'', message = ''invalid'', http_status = 422\<rparr>"
          "\<lparr>code = 2, reason = ''failed'', message = ''failed'', http_status = 400\<rparr>"
          "None :: unit option"]
  by simp

text \<open>
  C4, as the claim words it: for the code \<open>gkpj\<close> the message of the response would be
  the English text \<open>data already exists\<close>. The handler sends the literal of line 124, which
  is Chinese text, so the response is another one.
\<close>

theorem integrity_message_not_english:
  "integrity_exception_handler
     \<lparr>code = 1, reason = ''invalid'', message = ''invalid'', http_status = 422\<rparr>
     \<lparr>code = 2, reason = ''failed'', message = ''failed'', http_status = 400\<rparr>
     () \<lparr>ie_code = Some ''gkpj''\<rparr>
   \<noteq> Inr \<lparr>body_code = 2, body_reason = ''data exist'',
           body_message = ''data already exists'', status_code = 400\<rparr>"
  by (simp add: integrity_exception_handler_def response_for_error_def with_message_def
        make_JSONResponse_def msg_data_exists_def)

text \<open>
  C4, amended. For the code \<open>gkpj\<close> the handler answers with the code and status of the
  catalog's \<open>FAILED\<close>, the reason \<open>data exist\<close> and the message literal of line 124; for
  every other code, and for no code, the exception is raised again as it came in.
\<close>

theorem integrity_exception_handler_cases:
  "(ie_code exc = Some ''gkpj'' \<longrightarrow>
      integrity_exception_handler rve failed request exc =
        Inr \<lparr>body_code = code failed, body_reason = ''data exist'',
             body_message = msg_data_exists, status_code = http_status failed\<rparr>)
   \<and> (ie_code exc \<noteq> Some ''gkpj'' \<longrightarrow>
      integrity_exception_handler rve failed request exc = Inl (Reraised exc))"
  by (simp add: integrity_exception_handler_def response_for_error_def with_message_def
        make_JSONResponse_def msg_data_exists_def)

theorem integrity_exception_handler_cases_witness:
  "integrity_exception_handler
     \<lparr>code = 1, reason = ''invalid'', message = ''invalid'', http_status = 422\<rparr>
     \<lparr>code = 2, reason = ''failed'', message = ''failed'', http_status = 400\<rparr>
     () \<lparr>ie_code = Some ''gkpj''\<rparr>
   = Inr \<lparr>body_code = 2, body_reason = ''data exist'',
           body_message = msg_data_exists, status_code = 400\<rparr>
   \<and> integrity_exception_handler
     \<lparr>code = 1, reason = ''invalid'', message = ''invalid'', http_status = 422\<rparr>
     \<lparr>code = 2, reason = ''failed'', message = ''failed'', http_status = 400\<rparr>
     () \<lparr>ie_code = Some ''e3q8''\<rparr> = Inl (Reraised \<lparr>ie_code = Some ''e3q8''\<rparr>)"
  using
    integrity_exception_handler_cases
      [of "\<lparr>ie_code = Some ''gkpj''\<rparr>"
          "\<lparr>code = 1, reason = ''invalid'', message = ''invalid'', http_status = 422\<rparr>"
          "\<lparr>code = 2, reason = ''failed'', message = ''failed'', http_status = 400\<rparr>" "()"]
    integrity_exception_handler_cases
      [of "\<lparr>ie_code = Some ''e3q8''\<rparr>"
          "\<lparr>code = 1, reason = ''invalid'', message = ''invalid'', http_status = 422\<rparr>"
          "\<lparr>code = 2, reason = ''failed'', message = ''failed'', http_status = 400\<rparr>" "()"]
  by simp

section \<open>Properties of the environment configuration loader\<close>

subsection \<open>Text and the generic loader\<close>

lemma startswith_append: "startswith (p @ r) p"
  by (induction p) simp_all

lemma drop_prefix_sep: "drop (length p + length sep) (p @ sep @ key) = key"
  by (simp add: sep_def)

lemma redacted_cases:
  "redacted x = (case truthy x of Inl raised \<Rightarrow> Inl raised | Inr b \<Rightarrow> redacted x)"
  "truthy x = Inr b \<Longrightarrow> \<exists>y. redacted x = Inr y"
  "truthy x = Inl raised \<Longrightarrow> redacted x = Inl raised"
  by (simp_all add: redacted_def Let_def split: sum.splits)

text \<open>
  The secret flag only adds the truth test of the value: the result with the flag is the
  result without it, unless that test raises.
\<close>

lemma general_loader_flag:
  "general_loader env name loader d desc s =
     (case general_loader env name loader d desc False of
        Inl raised \<Rightarrow> Inl raised
      | Inr val \<Rightarrow>
          (if s then (case truthy val of Inl raised \<Rightarrow> Inl raised | Inr b \<Rightarrow> Inr val)
           else Inr val))"
proof (cases "case getenv env name of Some v \<Rightarrow> loader v | None \<Rightarrow> Inr d")
  case (Inl raised)
  then show ?thesis by (simp add: general_loader_def)
next
  case (Inr val)
  show ?thesis
  proof (cases "truthy val")
    case (Inl raised)
    with Inr show ?thesis by (simp add: general_loader_def redacted_cases(3))
  next
    case (Inr b)
    then obtain y where "redacted val = Inr y" using redacted_cases(2) by blast
    with Inr \<open>(case getenv env name of Some v \<Rightarrow> loader v | None \<Rightarrow> Inr d) = Inr val\<close>
    show ?thesis by (simp add: general_loader_def)
  qed
qed

lemma general_loader_clear:
  "general_loader env name loader d desc False =
     (case getenv env name of Some v \<Rightarrow> loader v | None \<Rightarrow> Inr d)"
  by (simp add: general_loader_def split: sum.splits option.splits)


lemma general_loader_set:
  "getenv env name = Some v \<Longrightarrow> s \<longrightarrow> (\<forall>x. loader v = Inr x \<longrightarrow> \<not> isl (truthy x)) \<Longrightarrow>
   general_loader env name loader d desc s = loader v"
  by (subst general_loader_flag) (auto simp add: general_loader_clear split: sum.splits)





lemma Env_boolean_set:
  "getenv env name = Some v \<Longrightarrow>
   Env_boolean env name d desc s = Inr (PBool (lower v \<in> {''true'', ''1'', ''yes''}))"
  unfolding Env_boolean_def by (rule general_loader_set) auto

subsection \<open>auto\_load\<close>

text \<open>
  C5, as the claim words it: with the prefix \<open>a__b\<close> and the variables \<open>A__B__X=5\<close> and
  \<open>A__B__Y__Z=9\<close>, \<open>X\<close> would be loaded. Line 255 compares the names as they are, capitals
  and all, so neither variable starts with the prefix and the mapping stays empty.
\<close>

theorem auto_load_upper_case_names_not_loaded:
  "auto_load parse_five parse_five [(''A__B__X'', ''5''), (''A__B__Y__Z'', ''9'')] ''a.b''
     Map.empty = (Map.empty, None)"
  by (simp add: auto_load_def replace_char_def sep_def)

text \<open>
  C5, amended. The prefix is the dotted name with every dot replaced by \<open>__\<close>, and names
  are compared as they are written. A variable whose name does not start with the prefix
  is passed over. For a variable named prefix, \<open>__\<close>, key: it is passed over when the key
  is empty or contains \<open>__\<close>, and otherwise the key is set in the mapping (or the reparse
  of its value raises). With the prefix \<open>a__b\<close> and the variables \<open>a__b__X=5\<close> and
  \<open>a__b__Y__Z=9\<close>, \<open>X\<close> alone is loaded. Names that start with the prefix and not with
  the prefix and \<open>__\<close> are not spoken of.
\<close>

theorem auto_load_selects_keys:
  "(\<not> startswith k p \<longrightarrow>
       auto_load_items jl le p ((k, v) # rest) st = auto_load_items jl le p rest st)
   \<and> (key = [] \<or> contains sep key \<longrightarrow>
       auto_load_items jl le p ((p @ sep @ key, v) # rest) st
         = auto_load_items jl le p rest st)
   \<and> (key \<noteq> [] \<and> \<not> contains sep key \<longrightarrow>
       (\<exists>x. auto_load_items jl le p ((p @ sep @ key, v) # rest) st
              = auto_load_items jl le p rest (st(key \<mapsto> x)))
       \<or> (\<exists>e. auto_load_items jl le p ((p @ sep @ key, v) # rest) st = (st, Some e)))
   \<and> (contains ''.'' name \<longrightarrow>
       auto_load jl le env name st
         = auto_load_items jl le (replace_char CHR ''.'' sep name) env st)
   \<and> auto_load jl le [(''a__b__X'', ''5''), (''a__b__Y__Z'', ''9'')] ''a.b'' Map.empty
       = (Map.empty(''X'' \<mapsto> PStr ''5''), None)"
proof -
  have other_name: "\<not> startswith k p \<longrightarrow>
       auto_load_items jl le p ((k, v) # rest) st = auto_load_items jl le p rest st"
    by simp
  have bad_key: "key = [] \<or> contains sep key \<longrightarrow>
       auto_load_items jl le p ((p @ sep @ key, v) # rest) st
         = auto_load_items jl le p rest st"
    by (simp add: startswith_append drop_prefix_sep)
  have good_key: "key \<noteq> [] \<and> \<not> contains sep key \<longrightarrow>
       (\<exists>x. auto_load_items jl le p ((p @ sep @ key, v) # rest) st
              = auto_load_items jl le p rest (st(key \<mapsto> x)))
       \<or> (\<exists>e. auto_load_items jl le p ((p @ sep @ key, v) # rest) st = (st, Some e))"
    by (auto simp add: startswith_append drop_prefix_sep split: option.splits sum.splits)
  have dotted: "contains ''.'' name \<longrightarrow>
       auto_load jl le env name st
         = auto_load_items jl le (replace_char CHR ''.'' sep name) env st"
    by (simp add: auto_load_def)
  have example:
    "auto_load jl le [(''a__b__X'', ''5''), (''a__b__Y__Z'', ''9'')] ''a.b'' Map.empty
       = (Map.empty(''X'' \<mapsto> PStr ''5''), None)"
    by (simp add: auto_load_def replace_char_def sep_def)
  from other_name bad_key good_key dotted example show ?thesis by blast
qed

theorem auto_load_selects_keys_witness:
  "\<not> startswith ''A__B__X'' ''a__b''
   \<and> contains sep ''Y__Z'' \<and> ''X'' \<noteq> [] \<and> \<not> contains sep ''X'' \<and> contains ''.'' ''a.b''
   \<and> auto_load_items parse_five parse_five ''a__b'' [(''A__B__X'', ''5'')] Map.empty
        = (Map.empty, None)
   \<and> auto_load_items parse_five parse_five ''a__b'' [(''a__b'' @ sep @ ''Y__Z'', ''9'')]
        Map.empty = (Map.empty, None)
   \<and> fst (auto_load_items parse_five parse_five ''a__b'' [(''a__b'' @ sep @ ''X'', ''5'')]
        Map.empty) ''X'' = Some (PStr ''5'')
   \<and> auto_load parse_five parse_five [(''a__b__X'', ''5'')] ''a.b'' Map.empty
        = auto_load_items parse_five parse_five (replace_char CHR ''.'' sep ''a.b'')
            [(''a__b__X'', ''5'')] Map.empty"
  using
    auto_load_selects_keys
      [of "''A__B__X''" "''a__b''" parse_five parse_five "''5''" "[]" Map.empty "''Y__Z''"
          "''a.b''" "[(''a__b__X'', ''5'')]"]
    auto_load_selects_keys
      [of "''A__B__X''" "''a__b''" parse_five parse_five "''9''" "[]" Map.empty "''Y__Z''"
          "''a.b''" "[(''a__b__X'', ''5'')]"]
    auto_load_selects_keys
      [of "''A__B__X''" "''a__b''" parse_five parse_five "''5''" "[]" Map.empty "''X''"
          "''a.b''" "[(''a__b__X'', ''5'')]"]
  by (simp add: sep_def)

text \<open>
  Line 255 tests the prefix alone and line 257 cuts the prefix and two more characters,
  whatever they are: a variable whose name goes on after the prefix with something other
  than \<open>__\<close> is loaded under what is left of its name.
\<close>

lemma auto_load_prefix_without_separator:
  "auto_load parse_five parse_five [(''a__bZZfoo'', ''1'')] ''a.b'' Map.empty
     = (Map.empty(''foo'' \<mapsto> PStr ''1''), None)"
  by (simp add: auto_load_def replace_char_def sep_def)

text \<open>
  C6. For a name without a dot, \<open>auto_load\<close> raises the exception of line 247. The
  mapping it leaves is the one it was given, and the result is the same for every
  environment: the loop over the variables is not reached.
\<close>

theorem auto_load_undotted_name_fails:
  "\<not> contains ''.'' name \<Longrightarrow>
   auto_load jl le env name st =
     (st, Some (PyException (''Invalid settings module name '' @ name
                  @ ''. Please import it with full package name'')))"
  by (simp add: auto_load_def)

theorem auto_load_undotted_name_fails_witness:
  "\<not> contains ''.'' ''settings''
   \<and> auto_load parse_five parse_five [(''settings__X'', ''5'')] ''settings'' Map.empty =
       (Map.empty,
        Some (PyException
          ''Invalid settings module name settings. Please import it with full package name''))"
  using
    auto_load_undotted_name_fails
      [of "''settings''" parse_five parse_five "[(''settings__X'', ''5'')]" Map.empty]
  by simp

subsection \<open>The typed loaders\<close>




text \<open>
  C8. For a variable set to \<open>v\<close>, \<open>Env.boolean\<close> returns whether \<open>v\<close> in lower case is
  one of \<open>true\<close>, \<open>1\<close> and \<open>yes\<close>: true for these three in any case of the letters, false
  for \<open>false\<close>, \<open>0\<close> and the empty text, whatever the default.
\<close>

theorem Env_boolean_of_set_value:
  "(getenv env name = Some v \<longrightarrow>
      Env_boolean env name d desc s = Inr (PBool (lower v \<in> {''true'', ''1'', ''yes''})))
   \<and> Env_boolean [(''B'', ''true'')] ''B'' (PBool False) None False = Inr (PBool True)
   \<and> Env_boolean [(''B'', ''1'')] ''B'' (PBool False) None False = Inr (PBool True)
   \<and> Env_boolean [(''B'', ''yes'')] ''B'' (PBool False) None False = Inr (PBool True)
   \<and> Env_boolean [(''B'', ''TRUE'')] ''B'' (PBool False) None False = Inr (PBool True)
   \<and> Env_boolean [(''B'', ''Yes'')] ''B'' (PBool False) None False = Inr (PBool True)
   \<and> Env_boolean [(''B'', ''false'')] ''B'' (PBool True) None False = Inr (PBool False)
   \<and> Env_boolean [(''B'', ''0'')] ''B'' (PBool True) None False = Inr (PBool False)
   \<and> Env_boolean [(''B'', [])] ''B'' (PBool True) None False = Inr (PBool False)"
proof -
  have general: "getenv env name = Some v \<longrightarrow>
      Env_boolean env name d desc s = Inr (PBool (lower v \<in> {''true'', ''1'', ''yes''}))"
    by (simp add: Env_boolean_set)
  have examples:
     "Env_boolean [(''B'', ''true'')] ''B'' (PBool False) None False = Inr (PBool True)"
     "Env_boolean [(''B'', ''1'')] ''B'' (PBool False) None False = Inr (PBool True)"
     "Env_boolean [(''B'', ''yes'')] ''B'' (PBool False) None False = Inr (PBool True)"
     "Env_boolean [(''B'', ''TRUE'')] ''B'' (PBool False) None False = Inr (PBool True)"
     "Env_boolean [(''B'', ''Yes'')] ''B'' (PBool False) None False = Inr (PBool True)"
     "Env_boolean [(''B'', ''false'')] ''B'' (PBool True) None False = Inr (PBool False)"
     "Env_boolean [(''B'', ''0'')] ''B'' (PBool True) None False = Inr (PBool False)"
     "Env_boolean [(''B'', [])] ''B'' (PBool True) None False = Inr (PBool False)"
    by (simp_all add: Env_boolean_def general_loader_def getenv_def lower_def lower_char_def)
  from general examples show ?thesis by blast
qed

theorem Env_boolean_of_set_value_witness:
  "getenv [(''B'', ''yEs'')] ''B'' = Some ''yEs''
   \<and> Env_boolean [(''B'', ''yEs'')] ''B'' (PBool False) None False = Inr (PBool True)"
  using Env_boolean_of_set_value
          [of "[(''B'', ''yEs'')]" "''B''" "''yEs''" "PBool False" None False]
  by (simp add: getenv_def lower_def lower_char_def)




subsection \<open>What auto\_load assigns\<close>

text \<open>
  C10. For a variable that \<open>auto_load\<close> takes (its name starts with the prefix, and the
  key left after the prefix and two more characters is not empty and has no \<open>__\<close>): when
  the mapping holds \<open>None\<close> under the key, the value of the variable is assigned as the
  text it is; the same holds whenever the mapping does not hold, under the key, a value
  that is neither \<open>None\<close> nor text; and when it does hold such a value, the text is read by
  \<open>json.loads\<close> and, if that raises, by \<open>ast.literal_eval\<close>, whose exception leaves the
  function.
\<close>

theorem auto_load_reparse_only_for_non_string:
  assumes "startswith k p"
    and "key = drop (length p + length sep) k"
    and "key \<noteq> []"
    and "\<not> contains sep key"
  shows "(st key = Some PNone \<longrightarrow>
            auto_load_items jl le p ((k, v) # rest) st
              = auto_load_items jl le p rest (st(key \<mapsto> PStr v)))
     \<and> (\<not> (\<exists>old. st key = Some old \<and> old \<noteq> PNone \<and> \<not> is_str old) \<longrightarrow>
            auto_load_items jl le p ((k, v) # rest) st
              = auto_load_items jl le p rest (st(key \<mapsto> PStr v)))
     \<and> ((\<exists>old. st key = Some old \<and> old \<noteq> PNone \<and> \<not> is_str old) \<longrightarrow>
            auto_load_items jl le p ((k, v) # rest) st
              = (case jl v of
                   Inr x \<Rightarrow> auto_load_items jl le p rest (st(key \<mapsto> x))
                 | Inl e \<Rightarrow>
                     (case le v of
                        Inr x \<Rightarrow> auto_load_items jl le p rest (st(key \<mapsto> x))
                      | Inl e' \<Rightarrow> (st, Some e'))))"
  using assms by (auto simp add: Let_def split: option.splits)

theorem auto_load_reparse_only_for_non_string_witness:
  "startswith ''a__b__X'' ''a__b''
   \<and> ''X'' = drop (length ''a__b'' + length sep) ''a__b__X''
   \<and> ''X'' \<noteq> [] \<and> \<not> contains sep ''X''
   \<and> auto_load_items parse_five parse_five ''a__b'' [(''a__b__X'', ''5'')] [''X'' \<mapsto> PNone]
        = ([''X'' \<mapsto> PStr ''5''], None)
   \<and> auto_load_items parse_five parse_five ''a__b'' [(''a__b__X'', ''5'')] [''X'' \<mapsto> PInt 1]
        = ([''X'' \<mapsto> PInt 5], None)"
proof -
  have h1: "startswith ''a__b__X'' ''a__b''" by simp
  have h2: "''X'' = drop (length ''a__b'' + length sep) ''a__b__X''" by (simp add: sep_def)
  have h3: "''X'' \<noteq> []" by simp
  have h4: "\<not> contains sep ''X''" by (simp add: sep_def)
  show ?thesis
    using h1 h2 h3 h4
      auto_load_reparse_only_for_non_string
        [OF h1 h2 h3 h4, of "[''X'' \<mapsto> PNone]" parse_five parse_five "''5''" "[]"]
      auto_load_reparse_only_for_non_string
        [OF h1 h2 h3 h4, of "[''X'' \<mapsto> PInt 1]" parse_five parse_five "''5''" "[]"]
    by (simp add: parse_five_def is_str_def)
qed

end
